theory Spec2Isabelle
  imports Main "HOL-Library.Sublist"
begin

section \<open>Python text and bytes\<close>

text \<open>
  The run profiles of \<^verbatim>\<open>robotide/contrib/testrunner/runprofiles.py\<close> assemble command
  lines out of Python \<^verbatim>\<open>str\<close> values and classify captured \<^verbatim>\<open>bytes\<close>. Both are
  modelled as \<^typ>\<open>string\<close>: one \<^typ>\<open>char\<close> is one byte of a \<^verbatim>\<open>bytes\<close> value, or one
  code point below 256 of a \<^verbatim>\<open>str\<close> value. Text with code points from 256 on is outside
  the model.
\<close>

text \<open>
  \<^verbatim>\<open>str.isspace\<close> on one character, for the code points below 256: the ASCII
  controls 9 to 13 and 28 to 31, the space, NEL (133) and the no-break space (160).
\<close>

definition isspace :: "char \<Rightarrow> bool" where
  "isspace c = (of_char c \<in> {9, 10, 11, 12, 13, 28, 29, 30, 31, 32, 133, 160 :: nat})"

text \<open>\<^verbatim>\<open>s.lstrip(chars)\<close> and \<^verbatim>\<open>s.rstrip(chars)\<close>, the character set given as a predicate.\<close>

definition lstrip :: "(char \<Rightarrow> bool) \<Rightarrow> string \<Rightarrow> string" where
  "lstrip P s = dropWhile P s"

definition rstrip :: "(char \<Rightarrow> bool) \<Rightarrow> string \<Rightarrow> string" where
  "rstrip P s = rev (dropWhile P (rev s))"

text \<open>\<^verbatim>\<open>s.strip()\<close>: whitespace is removed at both ends.\<close>

definition strip :: "string \<Rightarrow> string" where
  "strip s = rstrip isspace (lstrip isspace s)"

text \<open>
  \<^verbatim>\<open>s.split()\<close> with no separator: runs of whitespace separate the words and no
  empty word is produced. The first argument is the word read so far.
\<close>

fun split_words :: "string \<Rightarrow> string \<Rightarrow> string list" where
  "split_words w [] = (if w = [] then [] else [w])"
| "split_words w (c # cs) =
     (if isspace c then (if w = [] then split_words [] cs else w # split_words [] cs)
      else split_words (w @ [c]) cs)"

definition split :: "string \<Rightarrow> string list" where
  "split s = split_words [] s"

text \<open>\<^verbatim>\<open>s.split(sep)\<close> for a separator of one character: empty pieces are kept.\<close>

fun split_on :: "char \<Rightarrow> string \<Rightarrow> string list" where
  "split_on sep [] = [[]]"
| "split_on sep (c # cs) =
     (if c = sep then [] # split_on sep cs
      else (case split_on sep cs of
              [] \<Rightarrow> [[c]]
            | w # ws \<Rightarrow> (c # w) # ws))"

text \<open>\<^verbatim>\<open>sep.join(xs)\<close>.\<close>

fun join :: "string \<Rightarrow> string list \<Rightarrow> string" where
  "join sep [] = []"
| "join sep [x] = x"
| "join sep (x # y # ys) = x @ sep @ join sep (y # ys)"

text \<open>
  \<^verbatim>\<open>s.replace(old, new)\<close>: the occurrences of \<^verbatim>\<open>old\<close> are replaced from the left and do
  not overlap. With an empty \<^verbatim>\<open>old\<close> Python puts \<^verbatim>\<open>new\<close> before every character and at
  the end.
\<close>

function replace :: "string \<Rightarrow> string \<Rightarrow> string \<Rightarrow> string" where
  "replace old new [] = (if old = [] then new else [])"
| "replace old new (c # cs) =
     (if old = [] then new @ c # replace old new cs
      else if prefix old (c # cs) then new @ replace old new (drop (length old) (c # cs))
      else c # replace old new cs)"
  by pat_completeness auto
termination
  by (relation "measure (\<lambda>(old, new, s). length s)") auto

text \<open>\<^verbatim>\<open>sub in s\<close> on \<^verbatim>\<open>bytes\<close>: \<^verbatim>\<open>sub\<close> occurs in \<^verbatim>\<open>s\<close> as a contiguous run.\<close>

fun contains :: "string \<Rightarrow> string \<Rightarrow> bool" where
  "contains sub [] = (sub = [])"
| "contains sub (c # cs) = (prefix sub (c # cs) \<or> contains sub cs)"

section \<open>Paths\<close>

text \<open>
  \<^verbatim>\<open>os.path.dirname\<close> of \<^verbatim>\<open>posixpath\<close>: the head is the path up to and including its
  last slash; trailing slashes are then removed from it unless it consists of slashes only.
\<close>

definition dirname :: "string \<Rightarrow> string" where
  "dirname p =
     (let head = rev (dropWhile (\<lambda>c. c \<noteq> CHR ''/'') (rev p))
      in if head \<noteq> [] \<and> head \<noteq> replicate (length head) CHR ''/''
         then rstrip (\<lambda>c. c = CHR ''/'') head else head)"

text \<open>
  \<^verbatim>\<open>os.path.splitext\<close> of \<^verbatim>\<open>posixpath\<close>: the extension starts at the last dot of the
  last path component, unless that component has only dots before it.
\<close>

definition splitext :: "string \<Rightarrow> string \<times> string" where
  "splitext p =
     (let ext = rev (takeWhile (\<lambda>c. c \<noteq> CHR ''.'') (rev p));
          root = take (length p - length ext - 1) p;
          stem = rev (takeWhile (\<lambda>c. c \<noteq> CHR ''/'') (rev root))
      in if CHR ''.'' \<in> set p \<and> CHR ''/'' \<notin> set ext \<and> \<not> list_all (\<lambda>c. c = CHR ''.'') stem
         then (root, CHR ''.'' # ext) else (p, []))"

section \<open>printf-style formatting\<close>

text \<open>
  \<^verbatim>\<open>fmt % x\<close> for one \<^verbatim>\<open>str\<close> operand \<^verbatim>\<open>x\<close>. The format is read from the left:
  \<^verbatim>\<open>%%\<close> gives a percent sign, \<^verbatim>\<open>%s\<close> takes the operand, and Python raises
  \<^verbatim>\<open>TypeError\<close> when a second \<^verbatim>\<open>%s\<close> finds no operand left or when the operand is
  never taken, and \<^verbatim>\<open>ValueError\<close> when the format ends in a lone percent sign. The
  module's own formats are \<^verbatim>\<open>'%s'\<close>, \<^verbatim>\<open>'--include=%s'\<close>, \<^verbatim>\<open>'--exclude=%s'\<close> and a suite
  name followed by \<^verbatim>\<open>'-%s'\<close>; only a suite name can bring in another directive
  (a flag, a width, another conversion), and the model stops there with
  \<open>Other_directive\<close> instead of following Python.
\<close>

datatype format_failure = TypeError | ValueError | Other_directive

definition emit :: "string \<Rightarrow> format_failure + string \<Rightarrow> format_failure + string" where
  "emit pre r = (case r of Inl e \<Rightarrow> Inl e | Inr s \<Rightarrow> Inr (pre @ s))"

fun format_with :: "string \<Rightarrow> bool \<Rightarrow> string \<Rightarrow> format_failure + string" where
  "format_with x used [] = (if used then Inr [] else Inl TypeError)"
| "format_with x used (c # cs) =
     (if c \<noteq> CHR ''%'' then emit [c] (format_with x used cs)
      else (case cs of
              [] \<Rightarrow> Inl ValueError
            | d # ds \<Rightarrow>
                if d = CHR ''%'' then emit ''%'' (format_with x used ds)
                else if d = CHR ''s''
                  then (if used then Inl TypeError else emit x (format_with x True ds))
                else Inl Other_directive))"

definition percent_format :: "string \<Rightarrow> string \<Rightarrow> format_failure + string" where
  "percent_format fmt x = format_with x False fmt"

text \<open>Sequencing of steps that may raise: the first failure ends the call.\<close>

definition and_then :: "'e + 'a \<Rightarrow> ('a \<Rightarrow> 'e + 'b) \<Rightarrow> 'e + 'b" where
  "and_then r f = (case r of Inl e \<Rightarrow> Inl e | Inr x \<Rightarrow> f x)"

section \<open>The environment of a profile\<close>

text \<open>
  What the module reads from outside itself. \<open>call k argv\<close> is the outcome of
  \<^verbatim>\<open>subprocess.call(argv, stdout=out)\<close> when \<open>k\<close> probes were made before it: the exit
  status, or \<open>OSError\<close> when the process cannot be started. \<open>echo s\<close> is
  \<^verbatim>\<open>str(output)\<close> for the bytes that the shell's \<^verbatim>\<open>echo s\<close> wrote, or \<open>None\<close> when
  \<^verbatim>\<open>Popen\<close> raises \<^verbatim>\<open>IOError\<close>. \<open>abspath\<close> is \<^verbatim>\<open>os.path.abspath\<close> in the current working
  directory, and \<open>start_timestamp\<close> is \<^verbatim>\<open>format_time(time.time(), '', '-', '')\<close>.
\<close>

datatype probe = Exit int | OSError

record environment =
  os_name :: string
  IS_WINDOWS :: bool
  call :: "nat \<Rightarrow> string list \<Rightarrow> probe"
  echo :: "string \<Rightarrow> string option"
  abspath :: "string \<Rightarrow> string"
  start_timestamp :: string

section \<open>The profiles\<close>

text \<open>
  The settings a profile reads through attribute access, with the types of
  \<^verbatim>\<open>default_settings\<close>, the instance attribute \<^verbatim>\<open>_defined_arguments\<close>, and the name of
  the suite the plugin holds (\<^verbatim>\<open>self.plugin.model.suite.name\<close>).
\<close>

record profile =
  arguments :: string
  defined_arguments :: string
  output_directory :: string
  include_tags :: string
  exclude_tags :: string
  are_log_names_with_suite_name :: bool
  are_log_names_with_timestamp :: bool
  are_saving_logs :: bool
  apply_include_tags :: bool
  apply_exclude_tags :: bool
  runner_script :: string
  suite_name :: string

subsection \<open>BaseProfile: attribute access to the settings\<close>

text \<open>
  A setting is a string or a toggle. The plugin is seen through \<^verbatim>\<open>getattr\<close> only: a
  map from attribute names to values, where a missing name raises \<^verbatim>\<open>AttributeError\<close>.
  A profile class gives a \<^verbatim>\<open>name\<close> and its \<^verbatim>\<open>default_settings\<close>.
\<close>

datatype setting = Text string | Flag bool

datatype exception = AttributeError | DataError string

record profile_class =
  name :: string
  default_settings :: "string \<rightharpoonup> setting"

definition PybotProfile :: profile_class where
  "PybotProfile =
     \<lparr>name = ''robot'',
      default_settings = map_of
        [(''arguments'', Text ''''),
         (''output_directory'', Text ''''),
         (''include_tags'', Text ''''),
         (''exclude_tags'', Text ''''),
         (''are_log_names_with_suite_name'', Flag False),
         (''are_log_names_with_timestamp'', Flag False),
         (''are_saving_logs'', Flag False),
         (''apply_include_tags'', Flag False),
         (''apply_exclude_tags'', Flag False)]\<rparr>"

definition CustomScriptProfile :: profile_class where
  "CustomScriptProfile =
     \<lparr>name = ''custom script'',
      default_settings = (default_settings PybotProfile)(''runner_script'' \<mapsto> Text '''')\<rparr>"

text \<open>\<^verbatim>\<open>"%s_%s" % (self.name.replace(' ', '_'), name)\<close>: two operands for two \<^verbatim>\<open>%s\<close>.\<close>

definition get_setting_name :: "profile_class \<Rightarrow> string \<Rightarrow> string" where
  "get_setting_name cls attr = replace '' '' ''_'' (name cls) @ ''_'' @ attr"

definition getattr :: "(string \<rightharpoonup> 'v) \<Rightarrow> string \<Rightarrow> exception + 'v" where
  "getattr obj attr = (case obj attr of None \<Rightarrow> Inl AttributeError | Some v \<Rightarrow> Inr v)"

text \<open>
  \<^verbatim>\<open>BaseProfile.__getattr__\<close>, which Python calls for an attribute that the profile
  does not define itself. The innermost \<^verbatim>\<open>raise\<close> raises the \<^verbatim>\<open>AttributeError\<close> of the
  second lookup again.
\<close>

definition profile_getattr ::
  "(string \<rightharpoonup> setting) \<Rightarrow> profile_class \<Rightarrow> string \<Rightarrow> exception + setting" where
  "profile_getattr plugin cls attr =
     (case getattr plugin (get_setting_name cls attr) of
        Inr v \<Rightarrow> Inr v
      | Inl _ \<Rightarrow>
          (case getattr plugin attr of
             Inr v \<Rightarrow> Inr v
           | Inl e \<Rightarrow>
               (case default_settings cls attr of
                  Some v \<Rightarrow> Inr v
                | None \<Rightarrow> Inl e)))"

subsection \<open>BaseProfile and its subclasses: format_error\<close>

definition RF_INSTALLATION_NOT_FOUND :: string where
  "RF_INSTALLATION_NOT_FOUND =
     ''Robot Framework installation not found.<br>'' @ [CHR 0x0A] @
     ''To run tests, you need to install Robot Framework separately.<br>'' @ [CHR 0x0A] @
     ''See <a href='' @ [CHR 0x22] @ ''http://robotframework.org'' @ [CHR 0x22] @
     ''>http://robotframework.org</a> for'' @ [CHR 0x0A] @
     ''installation instructions.'' @ [CHR 0x0A]"

text \<open>\<^verbatim>\<open>pluginapi.RideLogMessage(message, notify_user=...)\<close>.\<close>

datatype RideLogMessage = RideLogMessage string bool

datatype profile_kind = Base | Pybot | CustomScript

text \<open>
  \<^verbatim>\<open>_create_error_log_message\<close>, as each class defines it: \<^verbatim>\<open>BaseProfile\<close> and
  \<^verbatim>\<open>CustomScriptProfile\<close> return \<^verbatim>\<open>None\<close>.
\<close>

fun create_error_log_message :: "profile_kind \<Rightarrow> string \<Rightarrow> int \<Rightarrow> RideLogMessage option" where
  "create_error_log_message Base error returncode = None"
| "create_error_log_message Pybot error returncode =
     (if contains ''not found'' error
         \<or> returncode = 127
         \<or> contains ''system cannot find the file specified'' error
      then Some (RideLogMessage RF_INSTALLATION_NOT_FOUND True)
      else None)"
| "create_error_log_message CustomScript error returncode = None"

definition format_error :: "profile_kind \<Rightarrow> string \<Rightarrow> int \<Rightarrow> string \<times> RideLogMessage option" where
  "format_error kind error returncode = (error, create_error_log_message kind error returncode)"

subsection \<open>PybotProfile: get_command\<close>

text \<open>
  The value \<^verbatim>\<open>get_command\<close> returns is a \<^verbatim>\<open>str\<close> (a command, or \<^verbatim>\<open>"no pybot"\<close>) or the
  \<^verbatim>\<open>int\<close> that the last probe exited with.
\<close>

datatype command = Str string | Status int

definition robot_bat :: "environment \<Rightarrow> string" where
  "robot_bat env = (if os_name env = ''nt'' then ''robot.bat'' else ''robot'')"

definition pybot_bat :: "environment \<Rightarrow> string" where
  "pybot_bat env = (if os_name env = ''nt'' then ''pybot.bat'' else ''pybot'')"

text \<open>The handler of the outer \<^verbatim>\<open>except OSError\<close>, entered after \<open>k\<close> probes.\<close>

definition get_command_except :: "environment \<Rightarrow> nat \<Rightarrow> command" where
  "get_command_except env k =
     (case call env k [pybot_bat env, ''--version''] of
        OSError \<Rightarrow> Str ''no pybot''
      | Exit result \<Rightarrow> if result = 251 then Str (pybot_bat env) else Status result)"

definition get_command :: "environment \<Rightarrow> command" where
  "get_command env =
     (case call env 0 [''robot'', ''--version''] of
        OSError \<Rightarrow> get_command_except env 1
      | Exit result \<Rightarrow>
          if result = 251 then Str ''robot''
          else (case call env 1 [robot_bat env, ''--version''] of
                  OSError \<Rightarrow> get_command_except env 2
                | Exit result \<Rightarrow>
                    if result = 251 then Str (robot_bat env) else Status result))"

subsection \<open>PybotProfile: get_command_args\<close>

text \<open>
  \<^verbatim>\<open>_parse_windows_command\<close>: the arguments are echoed through the shell and the text of
  the captured bytes is cleaned of its \<^verbatim>\<open>b'\<close> prefix, of quotes, of doubled backslashes
  and of the escaped line end. An \<^verbatim>\<open>IOError\<close> leaves \<^verbatim>\<open>_defined_arguments\<close> as it was.
\<close>

definition parse_windows_command :: "environment \<Rightarrow> profile \<Rightarrow> profile" where
  "parse_windows_command env p =
     (case echo env (arguments p) of
        None \<Rightarrow> p
      | Some text \<Rightarrow>
          (let output = strip (lstrip (\<lambda>c. c = CHR ''b'' \<or> c = CHR 0x27) text)
           in p\<lparr>defined_arguments :=
                 replace [CHR 0x5C, CHR ''r'', CHR 0x5C, CHR ''n''] []
                   (replace [CHR 0x5C, CHR 0x5C] [CHR 0x5C]
                     (replace [CHR 0x27] []
                       (replace [CHR 0x22] [] output)))\<rparr>))"

definition get_arguments :: "environment \<Rightarrow> profile \<Rightarrow> string list \<times> profile" where
  "get_arguments env p =
     (let p' = (if IS_WINDOWS env then parse_windows_command env p else p)
      in (split (defined_arguments p'), p'))"

text \<open>
  \<^verbatim>\<open>_get_tags_from_string\<close>: every comma-separated piece is stripped, loses its spaces,
  and is kept when something is left of it.
\<close>

fun collect_tags :: "string list \<Rightarrow> string list" where
  "collect_tags [] = []"
| "collect_tags (tag # rest) =
     (let tag = replace '' '' [] (strip tag)
      in if length tag > 0 then tag # collect_tags rest else collect_tags rest)"

definition get_tags_from_string :: "string \<Rightarrow> string list" where
  "get_tags_from_string tag_string = collect_tags (split_on CHR '','' tag_string)"

text \<open>The steps of \<^verbatim>\<open>get_command_args\<close>, in the order of the source.\<close>

definition add_output_directory :: "environment \<Rightarrow> profile \<Rightarrow> string list \<Rightarrow> string list" where
  "add_output_directory env p args =
     (if output_directory p \<noteq> [] \<and> ''--outputdir'' \<notin> set args \<and> ''-d'' \<notin> set args
      then args @ [''-d'', abspath env (output_directory p)]
      else args)"

definition log_name_format :: "profile \<Rightarrow> string" where
  "log_name_format p =
     (if are_log_names_with_suite_name p then suite_name p @ ''-%s'' else ''%s'')"

text \<open>
  \<^verbatim>\<open>if long not in args and short not in args: args.extend([short, fmt % file])\<close>.
\<close>

definition extend_unless_given ::
  "string \<Rightarrow> string \<Rightarrow> string \<Rightarrow> string \<Rightarrow> string list \<Rightarrow> format_failure + string list" where
  "extend_unless_given long short fmt file args =
     (if long \<notin> set args \<and> short \<notin> set args
      then and_then (percent_format fmt file) (\<lambda>log_name. Inr (args @ [short, log_name]))
      else Inr args)"

definition add_suite_name_logs :: "profile \<Rightarrow> string list \<Rightarrow> format_failure + string list" where
  "add_suite_name_logs p args =
     (if are_log_names_with_suite_name p
      then and_then (extend_unless_given ''--log'' ''-l'' (log_name_format p) ''Log.html'' args)
            (\<lambda>args. and_then
              (extend_unless_given ''--report'' ''-r'' (log_name_format p) ''Report.html'' args)
              (extend_unless_given ''--output'' ''-o'' (log_name_format p) ''Output.xml''))
      else Inr args)"

definition add_debugfile :: "profile \<Rightarrow> string list \<Rightarrow> format_failure + string list" where
  "add_debugfile p args =
     (if are_saving_logs p
      then extend_unless_given ''--debugfile'' ''-b'' (log_name_format p) ''Message.log'' args
      else Inr args)"

definition add_timestampoutputs :: "profile \<Rightarrow> string list \<Rightarrow> string list" where
  "add_timestampoutputs p args =
     (if are_log_names_with_timestamp p
         \<and> ''--timestampoutputs'' \<notin> set args \<and> ''-T'' \<notin> set args
      then args @ [''-T''] else args)"

text \<open>\<^verbatim>\<open>for tag in tags: args.append(fmt % tag)\<close>.\<close>

fun append_tags :: "string \<Rightarrow> string list \<Rightarrow> string list \<Rightarrow> format_failure + string list" where
  "append_tags fmt [] args = Inr args"
| "append_tags fmt (tag # tags) args =
     and_then (percent_format fmt tag) (\<lambda>token. append_tags fmt tags (args @ [token]))"

definition add_include_tags :: "profile \<Rightarrow> string list \<Rightarrow> format_failure + string list" where
  "add_include_tags p args =
     (if apply_include_tags p \<and> include_tags p \<noteq> []
      then append_tags ''--include=%s'' (get_tags_from_string (include_tags p)) args
      else Inr args)"

definition add_exclude_tags :: "profile \<Rightarrow> string list \<Rightarrow> format_failure + string list" where
  "add_exclude_tags p args =
     (if apply_exclude_tags p \<and> exclude_tags p \<noteq> []
      then append_tags ''--exclude=%s'' (get_tags_from_string (exclude_tags p)) args
      else Inr args)"

text \<open>
  \<^verbatim>\<open>get_command_args\<close> returns the list or raises out of a \<^verbatim>\<open>%\<close>; either way the
  profile keeps the \<^verbatim>\<open>_defined_arguments\<close> that \<^verbatim>\<open>_get_arguments\<close> has set.
\<close>

definition get_command_args ::
  "environment \<Rightarrow> profile \<Rightarrow> (format_failure + string list) \<times> profile" where
  "get_command_args env p =
     (let (args, p') = get_arguments env p
      in (and_then (add_suite_name_logs p' (add_output_directory env p' args))
           (\<lambda>args. and_then (add_debugfile p' args)
             (\<lambda>args. and_then (add_include_tags p' (add_timestampoutputs p' args))
               (add_exclude_tags p'))),
          p'))"

subsection \<open>PybotProfile: get_settings\<close>

definition get_settings :: "environment \<Rightarrow> profile \<Rightarrow> string list" where
  "get_settings env p =
     (if are_saving_logs p
      then (let name0 = ''Console.txt'';
                name1 = (if are_log_names_with_timestamp p
                         then (let (base, ext) = splitext name0
                               in (base @ ''-'' @ start_timestamp env) @ ext)
                         else name0);
                name2 = (if are_log_names_with_suite_name p
                         then suite_name p @ ''-'' @ name1
                         else name1)
            in [''console_log_name'', name2])
      else [])"

subsection \<open>PybotProfile: validation of the argument string\<close>

text \<open>
  \<^verbatim>\<open>ArgumentParser\<close> and \<^verbatim>\<open>USAGE\<close> are imported from modules that are not part of these
  sources, so the parser is a parameter of the model: \<open>parse_args\<close> returns the second
  component \<^verbatim>\<open>invalid\<close> of the parser's result, raises \<^verbatim>\<open>Information\<close>, or raises another
  exception, given with its \<^verbatim>\<open>message\<close> attribute when it has one; \<open>truth\<close> and \<open>str_of\<close>
  are \<^verbatim>\<open>bool(invalid)\<close> and the text an f-string gives for \<^verbatim>\<open>invalid\<close>.
\<close>

datatype 'i parse_outcome = Returns 'i | Raises_Information | Raises "string option"

record 'i ArgumentParser =
  parse_args :: "string list \<Rightarrow> 'i parse_outcome"
  truth :: "'i \<Rightarrow> bool"
  str_of :: "'i \<Rightarrow> string"

text \<open>
  The loop over the pieces between backticks: \<^verbatim>\<open>item.strip()[0]\<close> raises \<^verbatim>\<open>IndexError\<close>
  (\<open>None\<close>) on an empty piece; a piece that does not start with a dash becomes
  \<^verbatim>\<open>'arg'\<close>.
\<close>

fun clean_items :: "string list \<Rightarrow> string list option" where
  "clean_items [] = Some []"
| "clean_items (item # rest) =
     (case strip item of
        [] \<Rightarrow> None
      | c # cs \<Rightarrow>
          (case clean_items rest of
             None \<Rightarrow> None
           | Some cleaned \<Rightarrow>
               Some ((if c \<noteq> CHR ''-'' then ''arg'' else c # cs) # cleaned)))"

text \<open>
  \<^verbatim>\<open>_get_invalid_message\<close>. The handler \<^verbatim>\<open>raise DataError(e.message)\<close> raises
  \<^verbatim>\<open>AttributeError\<close> itself when the exception has no \<^verbatim>\<open>message\<close>, as for the
  \<^verbatim>\<open>IndexError\<close> of the loop.
\<close>

definition get_invalid_message :: "'i ArgumentParser \<Rightarrow> string \<Rightarrow> exception + string option" where
  "get_invalid_message parser args =
     (if args = [] then Inr None
      else (case clean_items (split_on (CHR 0x60) args) of
              None \<Rightarrow> Inl AttributeError
            | Some clean_args \<Rightarrow>
                (case parse_args parser (split (join '' '' clean_args)) of
                   Raises_Information \<Rightarrow>
                     Inr (Some ''Does not execute - help or version option given'')
                 | Raises None \<Rightarrow> Inl AttributeError
                 | Raises (Some message) \<Rightarrow> Inl (DataError message)
                 | Returns invalid \<Rightarrow>
                     if truth parser invalid
                     then Inr (Some (''Unknown option(s): '' @ str_of parser invalid))
                     else Inr None)))"

text \<open>
  Modelled from the spec: \<^verbatim>\<open>ArgumentParser(USAGE).parse_args\<close>, whose code and option
  table are not in the sources. The spec gives its outcomes: a help or version query is
  signalled apart from a real run, options that the runner does not know are reported by
  name, and the flags it names for the runner are \<^verbatim>\<open>--outputdir/-d\<close>, \<^verbatim>\<open>--log/-l\<close>,
  \<^verbatim>\<open>--report/-r\<close>, \<^verbatim>\<open>--output/-o\<close>, \<^verbatim>\<open>--debugfile/-b\<close>, \<^verbatim>\<open>--timestampoutputs/-T\<close>,
  \<^verbatim>\<open>--include=\<close> and \<^verbatim>\<open>--exclude=\<close>.
\<close>

definition known_option :: "string \<Rightarrow> bool" where
  "known_option t =
     (t \<in> set [''--outputdir'', ''-d'', ''--log'', ''-l'', ''--report'', ''-r'', ''--output'', ''-o'',
                ''--debugfile'', ''-b'', ''--timestampoutputs'', ''-T'']
      \<or> prefix ''--include='' t \<or> prefix ''--exclude='' t)"

definition usage_parser :: "string list ArgumentParser" where
  "usage_parser =
     \<lparr>parse_args = (\<lambda>tokens.
         if ''--help'' \<in> set tokens \<or> ''--version'' \<in> set tokens then Raises_Information
         else Returns (filter (\<lambda>t. prefix ''-'' t \<and> \<not> known_option t) tokens)),
      truth = (\<lambda>invalid. invalid \<noteq> []),
      str_of = join '' ''\<rparr>"

subsection \<open>CustomScriptProfile\<close>

definition custom_get_command :: "profile \<Rightarrow> string" where
  "custom_get_command p = strip (runner_script p)"

definition get_cwd :: "profile \<Rightarrow> string" where
  "get_cwd p = dirname (runner_script p)"

section \<open>Concrete profiles and environments\<close>

text \<open>
  A profile holding the defaults of \<^verbatim>\<open>PybotProfile.default_settings\<close> (and of
  \<^verbatim>\<open>runner_script\<close>), opened on a suite named \<^verbatim>\<open>Smoke\<close>.
\<close>

definition smoke_profile :: profile where
  "smoke_profile =
     \<lparr>arguments = '''', defined_arguments = '''', output_directory = '''',
      include_tags = '''', exclude_tags = '''',
      are_log_names_with_suite_name = False, are_log_names_with_timestamp = False,
      are_saving_logs = False, apply_include_tags = False, apply_exclude_tags = False,
      runner_script = '''', suite_name = ''Smoke''\<rparr>"

text \<open>
  Environments, given by their operating system and the outcome of every probe. None of
  them is Windows in the sense of \<^verbatim>\<open>IS_WINDOWS\<close>, so the arguments are not echoed.
\<close>

definition environment_of :: "string \<Rightarrow> (nat \<Rightarrow> string list \<Rightarrow> probe) \<Rightarrow> environment" where
  "environment_of os probes =
     \<lparr>os_name = os, IS_WINDOWS = False, call = probes, echo = (\<lambda>s. None),
      abspath = (\<lambda>path. ''/home/ride/'' @ path), start_timestamp = ''20240101-120000''\<rparr>"

text \<open>Nothing is installed: no probe can be started.\<close>

definition bare_posix :: environment where
  "bare_posix = environment_of ''posix'' (\<lambda>k argv. OSError)"

text \<open>Only \<^verbatim>\<open>robot.bat\<close> is installed, and it answers the version query.\<close>

definition robot_bat_only :: environment where
  "robot_bat_only =
     environment_of ''nt''
       (\<lambda>k argv. if argv = [''robot.bat'', ''--version''] then Exit 251 else OSError)"

text \<open>Every candidate starts and exits with status 1.\<close>

definition all_exit_1 :: environment where
  "all_exit_1 = environment_of ''posix'' (\<lambda>k argv. Exit 1)"

text \<open>Only \<^verbatim>\<open>pybot\<close> is installed, and it answers the version query.\<close>

definition pybot_only :: environment where
  "pybot_only =
     environment_of ''posix''
       (\<lambda>k argv. if argv = [''pybot'', ''--version''] then Exit 251 else OSError)"

text \<open>\<^verbatim>\<open>robot\<close> answers the version query.\<close>

definition robot_installed :: environment where
  "robot_installed =
     environment_of ''posix''
       (\<lambda>k argv. if argv = [''robot'', ''--version''] then Exit 251 else OSError)"

text \<open>On Windows \<^verbatim>\<open>robot\<close> starts and exits with 1, and \<^verbatim>\<open>robot.bat\<close> answers.\<close>

definition robot_bat_second :: environment where
  "robot_bat_second =
     environment_of ''nt''
       (\<lambda>k argv. if argv = [''robot.bat'', ''--version''] then Exit 251 else Exit 1)"

section \<open>Properties\<close>

subsection \<open>Stripping\<close>

lemma lstrip_decompose:
  "\<exists>pre. s = pre @ lstrip P s \<and> list_all P pre"
proof -
  have "s = takeWhile P s @ lstrip P s"
    by (simp add: lstrip_def)
  moreover have "list_all P (takeWhile P s)"
    by (simp add: list_all_iff) (meson set_takeWhileD)
  ultimately show ?thesis by blast
qed

lemma rstrip_decompose:
  "\<exists>post. s = rstrip P s @ post \<and> list_all P post"
proof -
  obtain pre where pre: "rev s = pre @ lstrip P (rev s)" "list_all P pre"
    using lstrip_decompose [of "rev s" P] by blast
  have "s = rev (lstrip P (rev s)) @ rev pre"
    using pre(1) by (metis rev_append rev_rev_ident)
  moreover have "list_all P (rev pre)"
    using pre(2) by (simp add: list_all_iff)
  ultimately show ?thesis
    by (auto simp: rstrip_def lstrip_def)
qed

lemma lstrip_hd: "lstrip P s \<noteq> [] \<Longrightarrow> \<not> P (hd (lstrip P s))"
  by (simp add: lstrip_def hd_dropWhile)

lemma rstrip_last: "rstrip P s \<noteq> [] \<Longrightarrow> \<not> P (last (rstrip P s))"
  by (simp add: rstrip_def last_rev hd_dropWhile)

lemma rstrip_hd: "rstrip P s \<noteq> [] \<Longrightarrow> \<not> P (hd s) \<Longrightarrow> \<not> P (hd (rstrip P s))"
proof -
  assume ne: "rstrip P s \<noteq> []" and hd: "\<not> P (hd s)"
  obtain post where "s = rstrip P s @ post"
    using rstrip_decompose [of s P] by blast
  then have "hd s = hd (rstrip P s)"
    using ne by (metis hd_append2)
  then show ?thesis using hd by simp
qed

lemma strip_decompose:
  "\<exists>pre post. s = pre @ strip s @ post \<and> list_all isspace pre \<and> list_all isspace post"
proof -
  obtain pre where pre: "s = pre @ lstrip isspace s" "list_all isspace pre"
    using lstrip_decompose by blast
  obtain post where post: "lstrip isspace s = strip s @ post" "list_all isspace post"
    using rstrip_decompose [of "lstrip isspace s" isspace] by (auto simp: strip_def)
  have "s = pre @ strip s @ post"
    using pre(1) post(1) by simp
  then show ?thesis using pre(2) post(2) by blast
qed

lemma strip_ends:
  "strip s = [] \<or> (\<not> isspace (hd (strip s)) \<and> \<not> isspace (last (strip s)))"
proof (cases "strip s = []")
  case True
  then show ?thesis by simp
next
  case False
  then have ne: "rstrip isspace (lstrip isspace s) \<noteq> []"
    by (simp add: strip_def)
  then have "lstrip isspace s \<noteq> []"
    by (auto simp: rstrip_def)
  then have "\<not> isspace (hd (lstrip isspace s))"
    by (rule lstrip_hd)
  with ne have "\<not> isspace (hd (strip s))"
    unfolding strip_def by (rule rstrip_hd)
  moreover have "\<not> isspace (last (strip s))"
    unfolding strip_def using ne by (rule rstrip_last)
  ultimately show ?thesis by simp
qed

subsection \<open>CustomScriptProfile: the command and the working directory\<close>

text \<open>
  C9. \<^verbatim>\<open>CustomScriptProfile.get_command()\<close> returns the configured script path with the
  whitespace at its two ends removed: the setting is the returned command between two
  runs of whitespace, and the returned command neither starts nor ends with a whitespace
  character. For the setting \<^verbatim>\<open>"  /opt/run.sh  "\<close> it returns \<^verbatim>\<open>"/opt/run.sh"\<close>.
\<close>

theorem custom_get_command_stripped:
  "(\<exists>pre post. runner_script p = pre @ custom_get_command p @ post
       \<and> list_all isspace pre \<and> list_all isspace post)
   \<and> (custom_get_command p = []
        \<or> (\<not> isspace (hd (custom_get_command p)) \<and> \<not> isspace (last (custom_get_command p))))
   \<and> custom_get_command (p\<lparr>runner_script := ''  /opt/run.sh  ''\<rparr>) = ''/opt/run.sh''"
proof (intro conjI)
  show "\<exists>pre post. runner_script p = pre @ custom_get_command p @ post
       \<and> list_all isspace pre \<and> list_all isspace post"
    unfolding custom_get_command_def by (rule strip_decompose)
  show "custom_get_command p = []
        \<or> (\<not> isspace (hd (custom_get_command p)) \<and> \<not> isspace (last (custom_get_command p)))"
    unfolding custom_get_command_def by (rule strip_ends)
  show "custom_get_command (p\<lparr>runner_script := ''  /opt/run.sh  ''\<rparr>) = ''/opt/run.sh''"
    by (simp add: custom_get_command_def strip_def lstrip_def rstrip_def isspace_def)
qed

text \<open>
  C10. \<^verbatim>\<open>get_cwd()\<close> takes the directory of the setting as it was typed, not of the
  stripped path that \<^verbatim>\<open>get_command()\<close> launches. For the setting \<^verbatim>\<open>"  /opt/run.sh  "\<close>
  the launched script is \<^verbatim>\<open>/opt/run.sh\<close>, whose directory is \<^verbatim>\<open>/opt\<close>, while
  \<^verbatim>\<open>get_cwd()\<close> returns \<^verbatim>\<open>"  /opt"\<close>, with the two leading spaces.
\<close>

theorem get_cwd_keeps_leading_whitespace:
  "get_cwd (p\<lparr>runner_script := ''  /opt/run.sh  ''\<rparr>) = ''  /opt''
   \<and> dirname (custom_get_command (p\<lparr>runner_script := ''  /opt/run.sh  ''\<rparr>)) = ''/opt''"
  by (simp add: get_cwd_def custom_get_command_def dirname_def strip_def lstrip_def
      rstrip_def isspace_def)

subsection \<open>PybotProfile.get_settings\<close>

text \<open>
  C7. With \<^verbatim>\<open>are_saving_logs\<close> on and neither the timestamp nor the suite name asked
  for in log names, \<^verbatim>\<open>get_settings()\<close> returns the two-element list
  \<^verbatim>\<open>['console_log_name', 'Console.txt']\<close>; with \<^verbatim>\<open>are_saving_logs\<close> off it returns the
  empty list.
\<close>

theorem get_settings_console_log:
  "(are_saving_logs p \<and> \<not> are_log_names_with_timestamp p \<and> \<not> are_log_names_with_suite_name p
      \<longrightarrow> get_settings env p = [''console_log_name'', ''Console.txt''])
   \<and> (\<not> are_saving_logs p \<longrightarrow> get_settings env p = [])"
  by (simp add: get_settings_def)

theorem get_settings_console_log_witness:
  "get_settings bare_posix (smoke_profile\<lparr>are_saving_logs := True\<rparr>)
     = [''console_log_name'', ''Console.txt'']
   \<and> get_settings bare_posix smoke_profile = []"
  using get_settings_console_log [of "smoke_profile\<lparr>are_saving_logs := True\<rparr>" bare_posix]
    get_settings_console_log [of smoke_profile bare_posix]
  by (simp add: smoke_profile_def)

subsection \<open>format_error\<close>

lemma contains_sublist: "contains sub s = sublist sub s"
  by (induction s) (simp_all add: sublist_Cons_right)

text \<open>
  C5, as the code has it. The second component of \<^verbatim>\<open>PybotProfile.format_error\<close> is the
  installation guidance exactly when the captured bytes contain \<^verbatim>\<open>not found\<close>, or the
  return code is 127, or the bytes contain \<^verbatim>\<open>system cannot find the file specified\<close>,
  and \<^verbatim>\<open>None\<close> otherwise; \<^verbatim>\<open>CustomScriptProfile.format_error\<close> always gives \<^verbatim>\<open>None\<close>.
\<close>

theorem format_error_guidance:
  "snd (format_error Pybot error returncode)
     = (if sublist ''not found'' error \<or> returncode = 127
           \<or> sublist ''system cannot find the file specified'' error
        then Some (RideLogMessage RF_INSTALLATION_NOT_FOUND True)
        else None)
   \<and> snd (format_error CustomScript error returncode) = None"
  by (simp add: format_error_def contains_sublist)

text \<open>
  C5 as stated fails: the Windows message has no \<^verbatim>\<open>not found\<close> in it and the return
  code is not 127, yet the guidance is returned.
\<close>

theorem format_error_windows_phrase:
  "\<not> contains ''not found'' ''The system cannot find the file specified.''
   \<and> (1 :: int) \<noteq> 127
   \<and> snd (format_error Pybot ''The system cannot find the file specified.'' 1)
       = Some (RideLogMessage RF_INSTALLATION_NOT_FOUND True)"
  by (simp add: format_error_def)

subsection \<open>BaseProfile.__getattr__\<close>

text \<open>
  C6. An attribute that the profile does not define is looked up in the plugin under the
  profile's name, an underscore and the attribute name; failing that, in the plugin under
  the attribute name alone; failing that, among the declared defaults of the profile; and
  when all three fail the lookup raises \<^verbatim>\<open>AttributeError\<close>. The profile's name enters
  the setting name with its spaces turned into underscores.
\<close>

theorem profile_getattr_order:
  "(plugin (get_setting_name cls attr) = Some v \<longrightarrow> profile_getattr plugin cls attr = Inr v)
   \<and> (plugin (get_setting_name cls attr) = None \<and> plugin attr = Some v
        \<longrightarrow> profile_getattr plugin cls attr = Inr v)
   \<and> (plugin (get_setting_name cls attr) = None \<and> plugin attr = None
        \<and> default_settings cls attr = Some v
        \<longrightarrow> profile_getattr plugin cls attr = Inr v)
   \<and> (plugin (get_setting_name cls attr) = None \<and> plugin attr = None
        \<and> default_settings cls attr = None
        \<longrightarrow> profile_getattr plugin cls attr = Inl AttributeError)
   \<and> get_setting_name PybotProfile attr = ''robot_'' @ attr
   \<and> get_setting_name CustomScriptProfile attr = ''custom_script_'' @ attr"
  by (simp add: profile_getattr_def getattr_def get_setting_name_def PybotProfile_def
      CustomScriptProfile_def)

theorem profile_getattr_order_witness:
  "profile_getattr [''robot_arguments'' \<mapsto> Text ''-T'', ''arguments'' \<mapsto> Text ''-L'']
       PybotProfile ''arguments'' = Inr (Text ''-T'')
   \<and> profile_getattr [''arguments'' \<mapsto> Text ''-L''] PybotProfile ''arguments'' = Inr (Text ''-L'')
   \<and> profile_getattr Map.empty CustomScriptProfile ''runner_script'' = Inr (Text '''')
   \<and> profile_getattr Map.empty PybotProfile ''runner_script'' = Inl AttributeError"
  using
    profile_getattr_order [of "[''robot_arguments'' \<mapsto> Text ''-T'', ''arguments'' \<mapsto> Text ''-L'']"
      PybotProfile "''arguments''" "Text ''-T''"]
    profile_getattr_order [of "[''arguments'' \<mapsto> Text ''-L'']" PybotProfile "''arguments''"
      "Text ''-L''"]
    profile_getattr_order [of Map.empty CustomScriptProfile "''runner_script''" "Text ''''"]
    profile_getattr_order [of Map.empty PybotProfile "''runner_script''"]
  by (simp add: PybotProfile_def CustomScriptProfile_def)

subsection \<open>PybotProfile.get_command\<close>

text \<open>
  C1 as stated fails twice. On Windows with only \<^verbatim>\<open>robot.bat\<close> installed, the failed
  start of \<^verbatim>\<open>robot\<close> sends the code to the handler, which probes \<^verbatim>\<open>pybot.bat\<close>:
  \<^verbatim>\<open>robot.bat\<close>, next in the preference order, is never probed although its version
  query exits with 251, and the result is \<^verbatim>\<open>"no pybot"\<close>. And when every candidate starts
  and exits with status 1, the result is the integer 1, not the sentinel.
\<close>

theorem get_command_skips_candidates:
  "call robot_bat_only 0 [''robot'', ''--version''] = OSError
   \<and> call robot_bat_only 1 [''robot.bat'', ''--version''] = Exit 251
   \<and> get_command robot_bat_only = Str ''no pybot''
   \<and> get_command all_exit_1 = Status 1"
  by (simp add: get_command_def get_command_except_def robot_bat_def pybot_bat_def
      robot_bat_only_def all_exit_1_def environment_of_def)

text \<open>
  C1, as the code has it. \<^verbatim>\<open>robot\<close> is probed first and accepted on exit status 251.
  When it ran and exited otherwise, its platform variant is probed and accepted on 251.
  The legacy candidate is probed only after one of these two probes failed to start, and is
  accepted on 251; the sentinel \<^verbatim>\<open>"no pybot"\<close> is returned exactly when the legacy probe
  fails to start as well. In every other case the exit status of the last probe is
  returned. A command is returned only if a probe of it exited with 251. The function is
  total: no \<^verbatim>\<open>OSError\<close> of a probe escapes it.
\<close>

theorem get_command_resolution:
  fixes env :: environment
  defines "first \<equiv> call env 0 [''robot'', ''--version'']"
    and "second \<equiv> call env 1 [robot_bat env, ''--version'']"
    and "legacy \<equiv> (\<lambda>k. call env k [pybot_bat env, ''--version''])"
  shows
  "(first = Exit 251 \<longrightarrow> get_command env = Str ''robot'')
   \<and> (\<forall>r. first = Exit r \<and> r \<noteq> 251 \<and> second = Exit 251
         \<longrightarrow> get_command env = Str (robot_bat env))
   \<and> (get_command env = Str (pybot_bat env)
        \<longleftrightarrow> (first = OSError \<and> legacy 1 = Exit 251)
            \<or> (\<exists>r. first = Exit r \<and> r \<noteq> 251 \<and> second = OSError \<and> legacy 2 = Exit 251))
   \<and> (get_command env = Str ''no pybot''
        \<longleftrightarrow> (first = OSError \<and> legacy 1 = OSError)
            \<or> (\<exists>r. first = Exit r \<and> r \<noteq> 251 \<and> second = OSError \<and> legacy 2 = OSError))
   \<and> (\<forall>s. get_command env = Status s
        \<longleftrightarrow> s \<noteq> 251
            \<and> ((\<exists>r. first = Exit r \<and> r \<noteq> 251 \<and> second = Exit s)
               \<or> (first = OSError \<and> legacy 1 = Exit s)
               \<or> (\<exists>r. first = Exit r \<and> r \<noteq> 251 \<and> second = OSError \<and> legacy 2 = Exit s)))
   \<and> (\<forall>cmd. get_command env = Str cmd \<and> cmd \<noteq> ''no pybot''
         \<longrightarrow> (\<exists>k. call env k [cmd, ''--version''] = Exit 251))"
proof -
  have variants: "robot_bat env \<noteq> pybot_bat env" "pybot_bat env \<noteq> ''robot''"
    "pybot_bat env \<noteq> ''no pybot''" "robot_bat env \<noteq> ''no pybot''"
    by (simp_all add: robot_bat_def pybot_bat_def)
  show ?thesis
  proof (cases first)
    case OSError
    then show ?thesis
      using variants unfolding first_def second_def legacy_def
      by (cases "call env 1 [pybot_bat env, ''--version'']")
        (auto simp: get_command_def get_command_except_def)
  next
    case (Exit r)
    show ?thesis
    proof (cases "r = 251")
      case True
      with Exit show ?thesis
        using variants unfolding first_def second_def legacy_def
        by (auto simp: get_command_def intro: exI [of _ 0])
    next
      case False
      show ?thesis
      proof (cases second)
        case OSError
        with Exit False show ?thesis
          using variants unfolding first_def second_def legacy_def
          by (cases "call env 2 [pybot_bat env, ''--version'']")
            (auto simp: get_command_def get_command_except_def)
      next
        case (Exit r')
        with \<open>first = Exit r\<close> False show ?thesis
          using variants unfolding first_def second_def legacy_def
          by (auto simp: get_command_def)
      qed
    qed
  qed
qed

theorem get_command_resolution_witness:
  "get_command robot_installed = Str ''robot''
   \<and> get_command robot_bat_second = Str ''robot.bat''
   \<and> get_command pybot_only = Str ''pybot''
   \<and> get_command bare_posix = Str ''no pybot''
   \<and> get_command all_exit_1 = Status 1
   \<and> (\<exists>k. call pybot_only k [''pybot'', ''--version''] = Exit 251)"
proof -
  have variants: "robot_bat robot_bat_second = ''robot.bat''" "pybot_bat pybot_only = ''pybot''"
    "pybot_bat bare_posix = ''pybot''" "robot_bat all_exit_1 = ''robot''"
    by (simp_all add: robot_bat_def pybot_bat_def robot_bat_second_def pybot_only_def
        bare_posix_def all_exit_1_def environment_of_def)
  have "call robot_installed 0 [''robot'', ''--version''] = Exit 251"
    by (simp add: robot_installed_def environment_of_def)
  then have accepted: "get_command robot_installed = Str ''robot''"
    by (rule get_command_resolution [of robot_installed, THEN conjunct1, rule_format])
  have "call robot_bat_second 0 [''robot'', ''--version''] = Exit 1 \<and> (1::int) \<noteq> 251
      \<and> call robot_bat_second 1 [robot_bat robot_bat_second, ''--version''] = Exit 251"
    unfolding variants by (simp add: robot_bat_second_def environment_of_def)
  then have "get_command robot_bat_second = Str (robot_bat robot_bat_second)"
    by (rule get_command_resolution [of robot_bat_second, THEN conjunct2, THEN conjunct1,
          rule_format])
  then have variant: "get_command robot_bat_second = Str ''robot.bat''"
    unfolding variants .
  have "call pybot_only 0 [''robot'', ''--version''] = OSError
      \<and> call pybot_only 1 [pybot_bat pybot_only, ''--version''] = Exit 251"
    unfolding variants by (simp add: pybot_only_def environment_of_def)
  then have "get_command pybot_only = Str (pybot_bat pybot_only)"
    by (rule get_command_resolution [of pybot_only, THEN conjunct2, THEN conjunct2,
          THEN conjunct1, THEN iffD2, OF disjI1])
  then have legacy: "get_command pybot_only = Str ''pybot''"
    unfolding variants .
  have "call bare_posix 0 [''robot'', ''--version''] = OSError
      \<and> call bare_posix 1 [pybot_bat bare_posix, ''--version''] = OSError"
    by (simp add: bare_posix_def environment_of_def)
  then have sentinel: "get_command bare_posix = Str ''no pybot''"
    by (rule get_command_resolution [of bare_posix, THEN conjunct2, THEN conjunct2,
          THEN conjunct2, THEN conjunct1, THEN iffD2, OF disjI1])
  have "(1::int) \<noteq> 251
      \<and> ((\<exists>r. call all_exit_1 0 [''robot'', ''--version''] = Exit r \<and> r \<noteq> 251
              \<and> call all_exit_1 1 [robot_bat all_exit_1, ''--version''] = Exit 1)
         \<or> (call all_exit_1 0 [''robot'', ''--version''] = OSError
              \<and> call all_exit_1 1 [pybot_bat all_exit_1, ''--version''] = Exit 1)
         \<or> (\<exists>r. call all_exit_1 0 [''robot'', ''--version''] = Exit r \<and> r \<noteq> 251
              \<and> call all_exit_1 1 [robot_bat all_exit_1, ''--version''] = OSError
              \<and> call all_exit_1 2 [pybot_bat all_exit_1, ''--version''] = Exit 1))"
    by (simp add: all_exit_1_def environment_of_def)
  then have status: "get_command all_exit_1 = Status 1"
    by (rule get_command_resolution [of all_exit_1, THEN conjunct2, THEN conjunct2,
          THEN conjunct2, THEN conjunct2, THEN conjunct1, THEN spec, THEN iffD2])
  have "get_command pybot_only = Str ''pybot'' \<and> ''pybot'' \<noteq> ''no pybot''"
    using legacy by simp
  then have probed: "\<exists>k. call pybot_only k [''pybot'', ''--version''] = Exit 251"
    by (rule get_command_resolution [of pybot_only, THEN conjunct2, THEN conjunct2,
          THEN conjunct2, THEN conjunct2, THEN conjunct2, rule_format])
  from accepted variant legacy sentinel status probed show ?thesis
    by (intro conjI)
qed

subsection \<open>PybotProfile._get_invalid_message\<close>

text \<open>
  C4 as stated fails on its second half: when the parser signals the help or version
  query for \<^verbatim>\<open>--help\<close>, the validation returns a message, and \<^verbatim>\<open>_validate_arguments\<close>
  shows every message it gets as an error.
\<close>

theorem get_invalid_message_help:
  "get_invalid_message usage_parser ''--help''
     = Inr (Some ''Does not execute - help or version option given'')"
  by (simp add: get_invalid_message_def usage_parser_def strip_def lstrip_def rstrip_def
      isspace_def split_def)

text \<open>
  C4, as the code has it. For the argument string \<^verbatim>\<open>--unknown-flag\<close> the parser is given
  the one token \<^verbatim>\<open>--unknown-flag\<close>, and when it reports a non-empty \<^verbatim>\<open>invalid\<close> the
  message is \<^verbatim>\<open>Unknown option(s): \<close> followed by the text of \<^verbatim>\<open>invalid\<close>. For \<^verbatim>\<open>--help\<close>
  the parser is given the one token \<^verbatim>\<open>--help\<close>; when it raises \<^verbatim>\<open>Information\<close> the
  message is \<^verbatim>\<open>Does not execute - help or version option given\<close>, and no message is
  returned only when the parser returns with nothing invalid.
\<close>

theorem get_invalid_message_outcomes:
  "(parse_args parser [''--unknown-flag''] = Returns invalid \<and> truth parser invalid
      \<longrightarrow> get_invalid_message parser ''--unknown-flag''
            = Inr (Some (''Unknown option(s): '' @ str_of parser invalid)))
   \<and> (parse_args parser [''--help''] = Raises_Information
      \<longrightarrow> get_invalid_message parser ''--help''
            = Inr (Some ''Does not execute - help or version option given''))
   \<and> (get_invalid_message parser ''--help'' = Inr None
      \<longleftrightarrow> (\<exists>invalid. parse_args parser [''--help''] = Returns invalid
                    \<and> \<not> truth parser invalid))"
proof -
  have run: "get_invalid_message parser arg =
      (case parse_args parser [arg] of
         Raises_Information \<Rightarrow> Inr (Some ''Does not execute - help or version option given'')
       | Raises None \<Rightarrow> Inl AttributeError
       | Raises (Some message) \<Rightarrow> Inl (DataError message)
       | Returns invalid \<Rightarrow>
           if truth parser invalid
           then Inr (Some (''Unknown option(s): '' @ str_of parser invalid))
           else Inr None)"
    if "arg = ''--unknown-flag'' \<or> arg = ''--help''" for arg
    using that
    by (auto simp: get_invalid_message_def strip_def lstrip_def rstrip_def isspace_def split_def)
  show ?thesis
    by (auto simp: run split: parse_outcome.splits option.splits)
qed

theorem get_invalid_message_outcomes_witness:
  "get_invalid_message usage_parser ''--unknown-flag''
     = Inr (Some ''Unknown option(s): --unknown-flag'')
   \<and> get_invalid_message usage_parser ''--help''
     = Inr (Some ''Does not execute - help or version option given'')"
proof -
  note outcomes = get_invalid_message_outcomes [of usage_parser "[''--unknown-flag'']"]
  have parsed: "parse_args usage_parser [''--unknown-flag''] = Returns [''--unknown-flag'']
      \<and> truth usage_parser [''--unknown-flag'']"
    by (simp add: usage_parser_def known_option_def)
  have query: "parse_args usage_parser [''--help''] = Raises_Information"
    by (simp add: usage_parser_def)
  have shown: "str_of usage_parser [''--unknown-flag''] = ''--unknown-flag''"
    by (simp add: usage_parser_def)
  have "get_invalid_message usage_parser ''--unknown-flag''
      = Inr (Some (''Unknown option(s): '' @ str_of usage_parser [''--unknown-flag'']))"
    by (rule mp [OF outcomes [THEN conjunct1] parsed])
  moreover have "get_invalid_message usage_parser ''--help''
      = Inr (Some ''Does not execute - help or version option given'')"
    by (rule mp [OF outcomes [THEN conjunct2, THEN conjunct1] query])
  ultimately show ?thesis
    by (simp add: shown)
qed

subsection \<open>Formatting\<close>

lemma and_then_Inr: "and_then r f = Inr y \<longleftrightarrow> (\<exists>x. r = Inr x \<and> f x = Inr y)"
  by (cases r) (simp_all add: and_then_def)

lemma and_then_Inl: "and_then r f = Inl e \<longleftrightarrow> r = Inl e \<or> (\<exists>x. r = Inr x \<and> f x = Inl e)"
  by (cases r) (simp_all add: and_then_def)

lemma emit_simps [simp]: "emit pre (Inr s) = Inr (pre @ s)" "emit pre (Inl e) = Inl e"
  by (simp_all add: emit_def)

lemma emit_Inr: "emit pre r = Inr n \<longleftrightarrow> (\<exists>s. r = Inr s \<and> n = pre @ s)"
  by (cases r) auto

lemma emit_emit: "emit a (emit b r) = emit (a @ b) r"
  by (cases r) simp_all

lemma format_with_plain:
  "CHR ''%'' \<notin> set pre \<Longrightarrow> format_with x used (pre @ rest) = emit pre (format_with x used rest)"
proof (induction pre)
  case Nil
  show ?case by (cases "format_with x used rest") simp_all
next
  case (Cons c pre)
  then show ?case by (auto simp: emit_emit)
qed

lemma percent_format_plain:
  "CHR ''%'' \<notin> set pre \<Longrightarrow> percent_format (pre @ ''%s'') x = Inr (pre @ x)"
  by (simp add: percent_format_def format_with_plain)

lemma format_with_sublist:
  "format_with x used fmt = Inr n \<Longrightarrow> used \<or> sublist x n"
proof (induction "length fmt" arbitrary: fmt used n rule: less_induct)
  case less
  show ?case
  proof (cases fmt)
    case Nil
    with less.prems show ?thesis by (simp split: if_splits)
  next
    case (Cons c cs)
    show ?thesis
    proof (cases "c = CHR ''%''")
      case False
      with Cons less.prems obtain s where s: "format_with x used cs = Inr s" "n = c # s"
        by (auto simp: emit_Inr)
      from less.hyps [of cs used s] Cons s(1) have "used \<or> sublist x s"
        by simp
      with s(2) show ?thesis
        by (auto simp: sublist_Cons_right)
    next
      case True
      with Cons less.prems obtain d ds where cs: "cs = d # ds"
        by (cases cs) auto
      show ?thesis
      proof (cases "d = CHR ''%''")
        case percent: True
        with True Cons cs less.prems obtain s
          where s: "format_with x used ds = Inr s" "n = CHR ''%'' # s"
          by (auto simp: emit_Inr)
        from less.hyps [of ds used s] Cons cs s(1) have "used \<or> sublist x s"
          by simp
        with s(2) show ?thesis
          by (auto simp: sublist_Cons_right)
      next
        case False
        with True Cons cs less.prems have "emit x (format_with x True ds) = Inr n"
          by (auto split: if_splits)
        then obtain s where "n = x @ s"
          by (auto simp: emit_Inr)
        then show ?thesis
          by simp
      qed
    qed
  qed
qed

lemma percent_format_sublist: "percent_format fmt x = Inr n \<Longrightarrow> sublist x n"
  using format_with_sublist [of x False fmt n] by (simp add: percent_format_def)

subsection \<open>The steps of get\_command\_args\<close>

lemma get_arguments_frame:
  "snd (get_arguments env p)
     = p\<lparr>defined_arguments := defined_arguments (snd (get_arguments env p))\<rparr>"
  by (simp add: get_arguments_def parse_windows_command_def Let_def split: option.splits)

lemma steps_ignore_defined_arguments [simp]:
  "add_output_directory env (p\<lparr>defined_arguments := d\<rparr>) = add_output_directory env p"
  "add_suite_name_logs (p\<lparr>defined_arguments := d\<rparr>) = add_suite_name_logs p"
  "add_debugfile (p\<lparr>defined_arguments := d\<rparr>) = add_debugfile p"
  "add_timestampoutputs (p\<lparr>defined_arguments := d\<rparr>) = add_timestampoutputs p"
  "add_include_tags (p\<lparr>defined_arguments := d\<rparr>) = add_include_tags p"
  "add_exclude_tags (p\<lparr>defined_arguments := d\<rparr>) = add_exclude_tags p"
  by (auto simp: fun_eq_iff add_output_directory_def add_suite_name_logs_def
      add_debugfile_def add_timestampoutputs_def add_include_tags_def add_exclude_tags_def
      log_name_format_def)

lemma get_command_args_steps:
  "fst (get_command_args env p) =
     and_then (add_suite_name_logs p (add_output_directory env p (fst (get_arguments env p))))
       (\<lambda>args. and_then (add_debugfile p args)
         (\<lambda>args. and_then (add_include_tags p (add_timestampoutputs p args))
           (add_exclude_tags p)))"
proof -
  obtain args p' where split: "get_arguments env p = (args, p')"
    by (cases "get_arguments env p")
  then have "p' = p\<lparr>defined_arguments := defined_arguments p'\<rparr>"
    using get_arguments_frame [of env p] by simp
  then obtain d where "p' = p\<lparr>defined_arguments := d\<rparr>" ..
  with split show ?thesis
    by (simp add: get_command_args_def)
qed

lemma get_arguments_output_directory:
  "fst (get_arguments env (p\<lparr>output_directory := od\<rparr>)) = fst (get_arguments env p)"
  by (simp add: get_arguments_def parse_windows_command_def Let_def split: option.splits)

lemma append_tags_plain:
  "CHR ''%'' \<notin> set pre \<Longrightarrow>
     append_tags (pre @ ''%s'') tags args = Inr (args @ map (\<lambda>tag. pre @ tag) tags)"
  by (induction tags arbitrary: args) (simp_all add: percent_format_plain and_then_def)

lemma add_include_tags_plain:
  "add_include_tags p args =
     Inr (args @ (if apply_include_tags p \<and> include_tags p \<noteq> []
                  then map (\<lambda>tag. ''--include='' @ tag) (get_tags_from_string (include_tags p))
                  else []))"
  using append_tags_plain [of "''--include=''" "get_tags_from_string (include_tags p)" args]
  by (simp add: add_include_tags_def)

lemma add_exclude_tags_plain:
  "add_exclude_tags p args =
     Inr (args @ (if apply_exclude_tags p \<and> exclude_tags p \<noteq> []
                  then map (\<lambda>tag. ''--exclude='' @ tag) (get_tags_from_string (exclude_tags p))
                  else []))"
  using append_tags_plain [of "''--exclude=''" "get_tags_from_string (exclude_tags p)" args]
  by (simp add: add_exclude_tags_def)

lemma extend_unless_given_plain:
  "CHR ''%'' \<notin> set pre \<Longrightarrow>
     extend_unless_given long short (pre @ ''%s'') file args =
       Inr (args @ (if long \<notin> set args \<and> short \<notin> set args then [short, pre @ file] else []))"
  by (simp add: extend_unless_given_def percent_format_plain and_then_def)

lemma extend_unless_given_Inr:
  "extend_unless_given long short fmt file args = Inr args' \<Longrightarrow>
     (args' = args \<and> (long \<in> set args \<or> short \<in> set args))
     \<or> (\<exists>log_name. args' = args @ [short, log_name] \<and> sublist file log_name
           \<and> long \<notin> set args \<and> short \<notin> set args)"
  by (auto simp: extend_unless_given_def and_then_Inr dest: percent_format_sublist
      split: if_splits)

lemma log_name_format_plain:
  "are_log_names_with_suite_name p \<longrightarrow> CHR ''%'' \<notin> set (suite_name p) \<Longrightarrow>
     \<exists>pre. log_name_format p = pre @ ''%s'' \<and> CHR ''%'' \<notin> set pre
        \<and> pre = (if are_log_names_with_suite_name p then suite_name p @ ''-'' else [])"
  by (simp add: log_name_format_def)

subsection \<open>Tags\<close>

lemma replace_char_filter: "replace [c] [] s = filter (\<lambda>x. x \<noteq> c) s"
  by (induction s) auto

lemma collect_tags_filter:
  "collect_tags pieces =
     filter (\<lambda>tag. tag \<noteq> []) (map (\<lambda>piece. filter (\<lambda>c. c \<noteq> CHR '' '') (strip piece)) pieces)"
  by (induction pieces) (simp_all add: replace_char_filter Let_def)

lemma get_arguments_tag_toggles:
  "fst (get_arguments env (p\<lparr>apply_include_tags := i, apply_exclude_tags := e\<rparr>))
     = fst (get_arguments env p)"
  by (simp add: get_arguments_def parse_windows_command_def Let_def split: option.splits)

lemma steps_ignore_tag_toggles [simp]:
  "add_output_directory env (p\<lparr>apply_include_tags := i, apply_exclude_tags := e\<rparr>)
     = add_output_directory env p"
  "add_suite_name_logs (p\<lparr>apply_include_tags := i, apply_exclude_tags := e\<rparr>)
     = add_suite_name_logs p"
  "add_debugfile (p\<lparr>apply_include_tags := i, apply_exclude_tags := e\<rparr>) = add_debugfile p"
  "add_timestampoutputs (p\<lparr>apply_include_tags := i, apply_exclude_tags := e\<rparr>)
     = add_timestampoutputs p"
  by (auto simp: fun_eq_iff add_output_directory_def add_suite_name_logs_def
      add_debugfile_def add_timestampoutputs_def log_name_format_def)

text \<open>
  C3 as stated fails on its general half. A comma-separated tag is not only trimmed: the
  spaces inside it are deleted, and a piece with nothing left gives no token. For the
  exclude tags \<^verbatim>\<open>"a b,"\<close> the trimmed pieces are \<^verbatim>\<open>a b\<close> and the empty string, and the one
  token produced is \<^verbatim>\<open>--exclude=ab\<close>: neither \<^verbatim>\<open>--exclude=a b\<close> nor \<^verbatim>\<open>--exclude=\<close>.
\<close>

theorem get_command_args_exclude_spaces:
  "map strip (split_on CHR '','' ''a b,'') = [''a b'', '''']
   \<and> fst (get_command_args bare_posix
            (smoke_profile\<lparr>apply_exclude_tags := True, exclude_tags := ''a b,''\<rparr>))
       = Inr [''--exclude=ab'']"
  by (simp add: get_command_args_def get_arguments_def bare_posix_def environment_of_def
      smoke_profile_def split_def add_output_directory_def add_suite_name_logs_def
      add_debugfile_def add_timestampoutputs_def add_include_tags_def add_exclude_tags_def
      and_then_def get_tags_from_string_def strip_def lstrip_def rstrip_def isspace_def
      percent_format_def)

text \<open>
  C3, as the code has it. The tokens for the tags come last: the result is what
  \<^verbatim>\<open>get_command_args()\<close> gives with both toggles off, followed by one \<^verbatim>\<open>--include=\<close> token
  per include tag when that toggle is on and the setting is not empty, followed likewise
  by the \<^verbatim>\<open>--exclude=\<close> tokens. The tags of a setting are its comma-separated pieces, each
  stripped of surrounding whitespace and of every space inside it, the empty ones left
  out, in their order. For \<^verbatim>\<open>"a, b ,c"\<close> they are \<^verbatim>\<open>a\<close>, \<^verbatim>\<open>b\<close>, \<^verbatim>\<open>c\<close>.
\<close>

theorem get_command_args_tags:
  "fst (get_command_args env p) =
     and_then
       (fst (get_command_args env (p\<lparr>apply_include_tags := False, apply_exclude_tags := False\<rparr>)))
       (\<lambda>args. Inr (args
          @ (if apply_include_tags p \<and> include_tags p \<noteq> []
             then map (\<lambda>tag. ''--include='' @ tag) (get_tags_from_string (include_tags p))
             else [])
          @ (if apply_exclude_tags p \<and> exclude_tags p \<noteq> []
             then map (\<lambda>tag. ''--exclude='' @ tag) (get_tags_from_string (exclude_tags p))
             else [])))
   \<and> get_tags_from_string tag_string =
       filter (\<lambda>tag. tag \<noteq> [])
         (map (\<lambda>piece. filter (\<lambda>c. c \<noteq> CHR '' '') (strip piece)) (split_on CHR '','' tag_string))
   \<and> get_tags_from_string ''a, b ,c'' = [''a'', ''b'', ''c'']"
proof (intro conjI)
  let ?q = "p\<lparr>apply_include_tags := False, apply_exclude_tags := False\<rparr>"
  let ?logs = "add_suite_name_logs p (add_output_directory env p (fst (get_arguments env p)))"
  show "fst (get_command_args env p) =
     and_then (fst (get_command_args env ?q))
       (\<lambda>args. Inr (args
          @ (if apply_include_tags p \<and> include_tags p \<noteq> []
             then map (\<lambda>tag. ''--include='' @ tag) (get_tags_from_string (include_tags p))
             else [])
          @ (if apply_exclude_tags p \<and> exclude_tags p \<noteq> []
             then map (\<lambda>tag. ''--exclude='' @ tag) (get_tags_from_string (exclude_tags p))
             else [])))"
  proof (cases ?logs)
    case (Inl failure)
    then show ?thesis
      by (simp add: get_command_args_steps get_arguments_tag_toggles and_then_def)
  next
    case (Inr named)
    then show ?thesis
      by (cases "add_debugfile p named")
        (simp_all add: get_command_args_steps get_arguments_tag_toggles and_then_def
          add_include_tags_plain add_exclude_tags_plain)
  qed
  show "get_tags_from_string tag_string =
       filter (\<lambda>tag. tag \<noteq> [])
         (map (\<lambda>piece. filter (\<lambda>c. c \<noteq> CHR '' '') (strip piece)) (split_on CHR '','' tag_string))"
    by (simp add: get_tags_from_string_def collect_tags_filter)
  show "get_tags_from_string ''a, b ,c'' = [''a'', ''b'', ''c'']"
    by (simp add: get_tags_from_string_def strip_def lstrip_def rstrip_def isspace_def)
qed

theorem get_command_args_tags_witness:
  "fst (get_command_args bare_posix
          (smoke_profile\<lparr>apply_include_tags := True, include_tags := ''a, b ,c''\<rparr>))
     = Inr [''--include=a'', ''--include=b'', ''--include=c'']"
proof -
  let ?p = "smoke_profile\<lparr>apply_include_tags := True, include_tags := ''a, b ,c''\<rparr>"
  have base: "fst (get_command_args bare_posix
      (?p\<lparr>apply_include_tags := False, apply_exclude_tags := False\<rparr>)) = Inr []"
    by (simp add: get_command_args_def get_arguments_def bare_posix_def environment_of_def
        smoke_profile_def split_def add_output_directory_def add_suite_name_logs_def
        add_debugfile_def add_timestampoutputs_def add_include_tags_def add_exclude_tags_def
        and_then_def)
  have tags: "get_tags_from_string ''a, b ,c'' = [''a'', ''b'', ''c'']"
    by (rule get_command_args_tags [THEN conjunct2, THEN conjunct2])
  have settings: "apply_include_tags ?p" "include_tags ?p = ''a, b ,c''"
    "\<not> apply_exclude_tags ?p"
    by (simp_all add: smoke_profile_def)
  show ?thesis
    unfolding get_command_args_tags [of bare_posix ?p, THEN conjunct1] base
    by (simp add: and_then_def settings tags)
qed

subsection \<open>What is appended after the output directory\<close>

lemma tag_tokens:
  "(\<And>tag. P (pre @ tag)) \<Longrightarrow> list_all P (map (\<lambda>tag. pre @ tag) tags)"
  by (simp add: list_all_iff)

lemma extend_unless_given_tokens:
  assumes "extend_unless_given long short fmt file args = Inr args'"
    and "P short" and "\<And>log_name. sublist file log_name \<Longrightarrow> P log_name"
  shows "\<exists>rest. args' = args @ rest \<and> list_all P rest"
  using extend_unless_given_Inr [OF assms(1)] assms(2,3) by auto

lemma add_suite_name_logs_tokens:
  assumes "add_suite_name_logs p args = Inr args'"
    and "P ''-l''" "P ''-r''" "P ''-o''"
    and "\<And>log_name. sublist ''Log.html'' log_name \<Longrightarrow> P log_name"
    and "\<And>log_name. sublist ''Report.html'' log_name \<Longrightarrow> P log_name"
    and "\<And>log_name. sublist ''Output.xml'' log_name \<Longrightarrow> P log_name"
  shows "\<exists>rest. args' = args @ rest \<and> list_all P rest"
proof (cases "are_log_names_with_suite_name p")
  case False
  with assms(1) show ?thesis
    by (simp add: add_suite_name_logs_def)
next
  case True
  with assms(1) obtain a b
    where a: "extend_unless_given ''--log'' ''-l'' (log_name_format p) ''Log.html'' args = Inr a"
      and b: "extend_unless_given ''--report'' ''-r'' (log_name_format p) ''Report.html'' a = Inr b"
      and c: "extend_unless_given ''--output'' ''-o'' (log_name_format p) ''Output.xml'' b = Inr args'"
    by (auto simp: add_suite_name_logs_def and_then_Inr)
  from extend_unless_given_tokens [OF a, of P] assms(2,5)
  obtain r1 where r1: "a = args @ r1" "list_all P r1" by blast
  from extend_unless_given_tokens [OF b, of P] assms(3,6)
  obtain r2 where r2: "b = a @ r2" "list_all P r2" by blast
  from extend_unless_given_tokens [OF c, of P] assms(4,7)
  obtain r3 where r3: "args' = b @ r3" "list_all P r3" by blast
  from r1 r2 r3 have "args' = args @ (r1 @ r2 @ r3) \<and> list_all P (r1 @ r2 @ r3)"
    by simp
  then show ?thesis ..
qed

lemma after_output_directory_tokens:
  assumes "and_then (add_suite_name_logs p args)
             (\<lambda>args. and_then (add_debugfile p args)
               (\<lambda>args. and_then (add_include_tags p (add_timestampoutputs p args))
                 (add_exclude_tags p))) = Inr res"
    and "P ''-l''" "P ''-r''" "P ''-o''" "P ''-b''" "P ''-T''"
    and "\<And>log_name. sublist ''Log.html'' log_name \<Longrightarrow> P log_name"
    and "\<And>log_name. sublist ''Report.html'' log_name \<Longrightarrow> P log_name"
    and "\<And>log_name. sublist ''Output.xml'' log_name \<Longrightarrow> P log_name"
    and "\<And>log_name. sublist ''Message.log'' log_name \<Longrightarrow> P log_name"
    and "\<And>tag. P (''--include='' @ tag)" "\<And>tag. P (''--exclude='' @ tag)"
  shows "\<exists>rest. res = args @ rest \<and> list_all P rest"
proof -
  from assms(1) obtain a b c
    where a: "add_suite_name_logs p args = Inr a"
      and b: "add_debugfile p a = Inr b"
      and c: "add_include_tags p (add_timestampoutputs p b) = Inr c"
      and d: "add_exclude_tags p c = Inr res"
    by (auto simp: and_then_Inr)
  from add_suite_name_logs_tokens [OF a, of P] assms(2-4,7-9)
  obtain r1 where r1: "a = args @ r1" "list_all P r1" by blast
  have "\<exists>rest. b = a @ rest \<and> list_all P rest"
  proof (cases "are_saving_logs p")
    case True
    with b have "extend_unless_given ''--debugfile'' ''-b'' (log_name_format p) ''Message.log'' a
        = Inr b"
      by (simp add: add_debugfile_def)
    from extend_unless_given_tokens [OF this, of P] assms(5,10) show ?thesis by blast
  next
    case False
    with b show ?thesis by (simp add: add_debugfile_def)
  qed
  then obtain r2 where r2: "b = a @ r2" "list_all P r2" by blast
  have "\<exists>rest. add_timestampoutputs p b = b @ rest \<and> list_all P rest"
    using assms(6) by (simp add: add_timestampoutputs_def)
  then obtain r3 where r3: "add_timestampoutputs p b = b @ r3" "list_all P r3" by blast
  let ?included = "if apply_include_tags p \<and> include_tags p \<noteq> []
      then map (\<lambda>tag. ''--include='' @ tag) (get_tags_from_string (include_tags p)) else []"
  let ?excluded = "if apply_exclude_tags p \<and> exclude_tags p \<noteq> []
      then map (\<lambda>tag. ''--exclude='' @ tag) (get_tags_from_string (exclude_tags p)) else []"
  have r4: "c = add_timestampoutputs p b @ ?included" "list_all P ?included"
    using c tag_tokens [of P "''--include=''", OF assms(11)]
    by (auto simp: add_include_tags_plain)
  have r5: "res = c @ ?excluded" "list_all P ?excluded"
    using d tag_tokens [of P "''--exclude=''", OF assms(12)]
    by (auto simp: add_exclude_tags_plain)
  from r1 r2 r3 r4 r5
  have "res = args @ (r1 @ r2 @ r3 @ ?included @ ?excluded)
      \<and> list_all P (r1 @ r2 @ r3 @ ?included @ ?excluded)"
    by simp
  then show ?thesis ..
qed

lemma after_output_directory_returns:
  assumes "are_log_names_with_suite_name p \<longrightarrow> CHR ''%'' \<notin> set (suite_name p)"
  shows "\<exists>res. and_then (add_suite_name_logs p args)
             (\<lambda>args. and_then (add_debugfile p args)
               (\<lambda>args. and_then (add_include_tags p (add_timestampoutputs p args))
                 (add_exclude_tags p))) = Inr res"
proof -
  from log_name_format_plain [OF assms]
  obtain pre where pre: "log_name_format p = pre @ ''%s''" "CHR ''%'' \<notin> set pre"
    by blast
  show ?thesis
    by (simp add: add_suite_name_logs_def add_debugfile_def pre(1)
        extend_unless_given_plain [OF pre(2)] add_include_tags_plain add_exclude_tags_plain
        and_then_def)
qed

lemma steps_ignore_output_directory [simp]:
  "add_suite_name_logs (p\<lparr>output_directory := od\<rparr>) = add_suite_name_logs p"
  "add_debugfile (p\<lparr>output_directory := od\<rparr>) = add_debugfile p"
  "add_timestampoutputs (p\<lparr>output_directory := od\<rparr>) = add_timestampoutputs p"
  "add_include_tags (p\<lparr>output_directory := od\<rparr>) = add_include_tags p"
  "add_exclude_tags (p\<lparr>output_directory := od\<rparr>) = add_exclude_tags p"
  by (auto simp: fun_eq_iff add_suite_name_logs_def add_debugfile_def
      add_timestampoutputs_def add_include_tags_def add_exclude_tags_def log_name_format_def)

lemma not_output_directory_flag:
  "\<not> sublist ''Log.html'' ''-d''" "\<not> sublist ''Log.html'' ''--outputdir''"
  "\<not> sublist ''Report.html'' ''-d''" "\<not> sublist ''Report.html'' ''--outputdir''"
  "\<not> sublist ''Output.xml'' ''-d''" "\<not> sublist ''Output.xml'' ''--outputdir''"
  "\<not> sublist ''Message.log'' ''-d''" "\<not> sublist ''Message.log'' ''--outputdir''"
  by (simp_all add: contains_sublist [symmetric])

lemma not_dash_prefix:
  "\<not> prefix ''-'' path \<Longrightarrow>
     path \<notin> {''--log'', ''-l'', ''--report'', ''-r'', ''--output'', ''-o'', ''--debugfile'', ''-b'',
               ''--timestampoutputs'', ''-T''}"
  by auto

text \<open>
  C2. When the whitespace-split tokens of the argument string contain \<^verbatim>\<open>-d\<close> or
  \<^verbatim>\<open>--outputdir\<close>, the output directory setting has no effect on what
  \<^verbatim>\<open>get_command_args()\<close> returns, and what it appends to the user's tokens contains
  neither of the two flags. When neither token is present and the setting is not empty, the
  user's tokens are followed at once by \<^verbatim>\<open>-d\<close> and the absolute path of the directory;
  the call can only fail in the formatting of the log names, that is, when the log names
  carry a suite name with a percent sign in it.
\<close>

theorem get_command_args_output_directory:
  fixes env :: environment and p :: profile
  defines "args \<equiv> fst (get_arguments env p)"
  shows
  "(''-d'' \<in> set args \<or> ''--outputdir'' \<in> set args \<longrightarrow>
      fst (get_command_args env (p\<lparr>output_directory := od\<rparr>)) = fst (get_command_args env p)
      \<and> (\<forall>res. fst (get_command_args env p) = Inr res \<longrightarrow>
            (\<exists>rest. res = args @ rest \<and> ''-d'' \<notin> set rest \<and> ''--outputdir'' \<notin> set rest)))
   \<and> (''-d'' \<notin> set args \<and> ''--outputdir'' \<notin> set args \<and> output_directory p \<noteq> [] \<longrightarrow>
      (case fst (get_command_args env p) of
         Inr res \<Rightarrow>
           take (length args + 2) res = args @ [''-d'', abspath env (output_directory p)]
       | Inl failure \<Rightarrow>
           are_log_names_with_suite_name p \<and> CHR ''%'' \<in> set (suite_name p)))"
proof (intro conjI impI allI)
  assume given: "''-d'' \<in> set args \<or> ''--outputdir'' \<in> set args"
  then have same: "add_output_directory env q args = args" for q
    by (auto simp: add_output_directory_def)
  show "fst (get_command_args env (p\<lparr>output_directory := od\<rparr>)) = fst (get_command_args env p)"
    using same
    by (simp add: get_command_args_steps get_arguments_output_directory args_def [symmetric])
  fix res
  assume "fst (get_command_args env p) = Inr res"
  then have "and_then (add_suite_name_logs p args)
             (\<lambda>args. and_then (add_debugfile p args)
               (\<lambda>args. and_then (add_include_tags p (add_timestampoutputs p args))
                 (add_exclude_tags p))) = Inr res"
    using same by (simp add: get_command_args_steps args_def [symmetric])
  from after_output_directory_tokens
    [OF this, of "\<lambda>token. token \<noteq> ''-d'' \<and> token \<noteq> ''--outputdir''"]
  obtain rest where "res = args @ rest"
    "list_all (\<lambda>token. token \<noteq> ''-d'' \<and> token \<noteq> ''--outputdir'') rest"
    using not_output_directory_flag by auto
  then have "res = args @ rest \<and> ''-d'' \<notin> set rest \<and> ''--outputdir'' \<notin> set rest"
    by (auto simp: list_all_iff)
  then show "\<exists>rest. res = args @ rest \<and> ''-d'' \<notin> set rest \<and> ''--outputdir'' \<notin> set rest" ..
next
  assume free: "''-d'' \<notin> set args \<and> ''--outputdir'' \<notin> set args \<and> output_directory p \<noteq> []"
  let ?named = "args @ [''-d'', abspath env (output_directory p)]"
  let ?later = "and_then (add_suite_name_logs p ?named)
             (\<lambda>args. and_then (add_debugfile p args)
               (\<lambda>args. and_then (add_include_tags p (add_timestampoutputs p args))
                 (add_exclude_tags p)))"
  from free have steps: "fst (get_command_args env p) = ?later"
    by (simp add: get_command_args_steps args_def [symmetric] add_output_directory_def)
  show "case fst (get_command_args env p) of
         Inr res \<Rightarrow>
           take (length args + 2) res = args @ [''-d'', abspath env (output_directory p)]
       | Inl failure \<Rightarrow>
           are_log_names_with_suite_name p \<and> CHR ''%'' \<in> set (suite_name p)"
  proof (cases ?later)
    case (Inr res)
    from after_output_directory_tokens [OF this, of "\<lambda>token. True"]
    obtain rest where "res = ?named @ rest"
      by auto
    with Inr steps show ?thesis
      by simp
  next
    case (Inl failure)
    have "are_log_names_with_suite_name p \<and> CHR ''%'' \<in> set (suite_name p)"
    proof (rule ccontr)
      assume "\<not> (are_log_names_with_suite_name p \<and> CHR ''%'' \<in> set (suite_name p))"
      then have "are_log_names_with_suite_name p \<longrightarrow> CHR ''%'' \<notin> set (suite_name p)"
        by simp
      from after_output_directory_returns [OF this, of ?named] Inl show False
        by simp
    qed
    with Inl steps show ?thesis
      by simp
  qed
qed

theorem get_command_args_output_directory_witness:
  "fst (get_command_args bare_posix
          (smoke_profile\<lparr>defined_arguments := ''-d out'', output_directory := ''logs''\<rparr>))
     = Inr [''-d'', ''out'']
   \<and> (\<exists>res. fst (get_command_args bare_posix (smoke_profile\<lparr>output_directory := ''logs''\<rparr>))
               = Inr res
          \<and> take 2 res = [''-d'', ''/home/ride/logs''])"
proof
  let ?given = "smoke_profile\<lparr>defined_arguments := ''-d out''\<rparr>"
  have "split ''-d out'' = [''-d'', ''out'']"
    by (simp add: split_def isspace_def)
  then have tokens: "fst (get_arguments bare_posix ?given) = [''-d'', ''out'']"
    by (simp add: get_arguments_def bare_posix_def environment_of_def smoke_profile_def)
  have base: "fst (get_command_args bare_posix ?given) = Inr [''-d'', ''out'']"
    unfolding get_command_args_steps tokens
    by (simp add: smoke_profile_def add_output_directory_def
        add_suite_name_logs_def add_debugfile_def add_timestampoutputs_def
        add_include_tags_def add_exclude_tags_def and_then_def)
  have "''-d'' \<in> set (fst (get_arguments bare_posix ?given))
        \<or> ''--outputdir'' \<in> set (fst (get_arguments bare_posix ?given))"
    by (simp add: tokens)
  from get_command_args_output_directory
    [of bare_posix ?given "''logs''", THEN conjunct1, rule_format, OF this, THEN conjunct1]
  show "fst (get_command_args bare_posix
          (smoke_profile\<lparr>defined_arguments := ''-d out'', output_directory := ''logs''\<rparr>))
     = Inr [''-d'', ''out'']"
    by (simp only: base)
next
  let ?named = "smoke_profile\<lparr>output_directory := ''logs''\<rparr>"
  have tokens: "fst (get_arguments bare_posix ?named) = []"
    by (simp add: get_arguments_def bare_posix_def environment_of_def smoke_profile_def
        split_def)
  have "''-d'' \<notin> set (fst (get_arguments bare_posix ?named))
        \<and> ''--outputdir'' \<notin> set (fst (get_arguments bare_posix ?named))
        \<and> output_directory ?named \<noteq> []"
    by (simp add: tokens)
  from get_command_args_output_directory
    [of bare_posix ?named undefined, THEN conjunct2, rule_format, OF this]
  have named: "case fst (get_command_args bare_posix ?named) of
      Inl failure \<Rightarrow> are_log_names_with_suite_name ?named \<and> CHR ''%'' \<in> set (suite_name ?named)
    | Inr res \<Rightarrow> take (length (fst (get_arguments bare_posix ?named)) + 2) res
        = fst (get_arguments bare_posix ?named)
          @ [''-d'', abspath bare_posix (output_directory ?named)]" .
  have settings: "\<not> are_log_names_with_suite_name ?named"
    "abspath bare_posix ''logs'' = ''/home/ride/logs''"
    by (simp_all add: smoke_profile_def bare_posix_def environment_of_def)
  show "\<exists>res. fst (get_command_args bare_posix ?named) = Inr res
          \<and> take 2 res = [''-d'', ''/home/ride/logs'']"
  proof (cases "fst (get_command_args bare_posix ?named)")
    case (Inl failure)
    with named settings show ?thesis
      by simp
  next
    case (Inr res)
    with named have "take 2 res = [''-d'', ''/home/ride/logs'']"
      by (simp add: tokens settings numeral_2_eq_2)
    with Inr show ?thesis
      by simp
  qed
qed

text \<open>
  C8. With log names carrying the suite name and the suite called \<^verbatim>\<open>Smoke\<close>,
  \<^verbatim>\<open>get_command_args()\<close> returns the user's tokens followed by further ones. For each of
  log, report and output: when the long or the short flag is among the user's tokens, the
  short flag is not among the appended ones; otherwise the short flag and its file name
  \<^verbatim>\<open>Smoke-Log.html\<close>, \<^verbatim>\<open>Smoke-Report.html\<close> or \<^verbatim>\<open>Smoke-Output.xml\<close> are appended next to each
  other. When none of the six flags is given, the three pairs follow each other in that
  order. The absolute path of the output directory is taken not to begin with a dash,
  as no absolute path does.
\<close>

theorem get_command_args_suite_name_logs:
  fixes env :: environment and p :: profile
  defines "args \<equiv> fst (get_arguments env p)"
  assumes enabled: "are_log_names_with_suite_name p"
    and suite: "suite_name p = ''Smoke''"
    and absolute: "\<not> prefix ''-'' (abspath env (output_directory p))"
  shows "\<exists>rest. fst (get_command_args env p) = Inr (args @ rest)
    \<and> (if ''--log'' \<in> set args \<or> ''-l'' \<in> set args then ''-l'' \<notin> set rest
        else sublist [''-l'', ''Smoke-Log.html''] rest)
    \<and> (if ''--report'' \<in> set args \<or> ''-r'' \<in> set args then ''-r'' \<notin> set rest
        else sublist [''-r'', ''Smoke-Report.html''] rest)
    \<and> (if ''--output'' \<in> set args \<or> ''-o'' \<in> set args then ''-o'' \<notin> set rest
        else sublist [''-o'', ''Smoke-Output.xml''] rest)
    \<and> (set args \<inter> {''--log'', ''-l'', ''--report'', ''-r'', ''--output'', ''-o''} = {} \<longrightarrow>
          sublist [''-l'', ''Smoke-Log.html'', ''-r'', ''Smoke-Report.html'',
                   ''-o'', ''Smoke-Output.xml''] rest)"
proof -
  define dir_tokens where "dir_tokens =
    (if output_directory p \<noteq> [] \<and> ''--outputdir'' \<notin> set args \<and> ''-d'' \<notin> set args
     then [''-d'', abspath env (output_directory p)] else [])"
  define log_tokens where "log_tokens =
    (if ''--log'' \<notin> set args \<and> ''-l'' \<notin> set args then [''-l'', ''Smoke-Log.html''] else [])"
  define report_tokens where "report_tokens =
    (if ''--report'' \<notin> set args \<and> ''-r'' \<notin> set args
     then [''-r'', ''Smoke-Report.html''] else [])"
  define output_tokens where "output_tokens =
    (if ''--output'' \<notin> set args \<and> ''-o'' \<notin> set args
     then [''-o'', ''Smoke-Output.xml''] else [])"
  define debug_tokens where "debug_tokens =
    (if are_saving_logs p \<and> ''--debugfile'' \<notin> set args \<and> ''-b'' \<notin> set args
     then [''-b'', ''Smoke-Message.log''] else [])"
  define stamp_tokens where "stamp_tokens =
    (if are_log_names_with_timestamp p \<and> ''--timestampoutputs'' \<notin> set args
        \<and> ''-T'' \<notin> set args
     then [''-T''] else [])"
  define include_tokens where "include_tokens =
    (if apply_include_tags p \<and> include_tags p \<noteq> []
     then map (\<lambda>tag. ''--include='' @ tag) (get_tags_from_string (include_tags p)) else [])"
  define exclude_tokens where "exclude_tokens =
    (if apply_exclude_tags p \<and> exclude_tags p \<noteq> []
     then map (\<lambda>tag. ''--exclude='' @ tag) (get_tags_from_string (exclude_tags p)) else [])"
  note parts = dir_tokens_def log_tokens_def report_tokens_def output_tokens_def debug_tokens_def stamp_tokens_def
  note path = not_dash_prefix [OF absolute]
  have format: "log_name_format p = ''Smoke-'' @ ''%s''"
    by (simp add: log_name_format_def enabled suite)
  have plain: "CHR ''%'' \<notin> set ''Smoke-''"
    by simp
  note extend = extend_unless_given_plain [OF plain]
  have named: "add_output_directory env p args = args @ dir_tokens"
    by (simp add: add_output_directory_def dir_tokens_def)
  have log_step: "extend_unless_given ''--log'' ''-l'' (''Smoke-'' @ ''%s'') ''Log.html''
      (args @ dir_tokens) = Inr (args @ dir_tokens @ log_tokens)"
    unfolding extend using path by (auto simp: parts)
  have report_step: "extend_unless_given ''--report'' ''-r'' (''Smoke-'' @ ''%s'') ''Report.html''
      (args @ dir_tokens @ log_tokens) = Inr (args @ dir_tokens @ log_tokens @ report_tokens)"
    unfolding extend using path by (auto simp: parts)
  have output_step: "extend_unless_given ''--output'' ''-o'' (''Smoke-'' @ ''%s'') ''Output.xml''
      (args @ dir_tokens @ log_tokens @ report_tokens) = Inr (args @ dir_tokens @ log_tokens @ report_tokens @ output_tokens)"
    unfolding extend using path by (auto simp: parts)
  have logs: "add_suite_name_logs p (args @ dir_tokens) = Inr (args @ dir_tokens @ log_tokens @ report_tokens @ output_tokens)"
    unfolding add_suite_name_logs_def format
    by (simp only: enabled if_True log_step report_step output_step and_then_def sum.case)
  have debug_step: "add_debugfile p (args @ dir_tokens @ log_tokens @ report_tokens @ output_tokens) = Inr (args @ dir_tokens @ log_tokens @ report_tokens @ output_tokens @ debug_tokens)"
    unfolding add_debugfile_def format extend using path by (auto simp: parts)
  have stamp_step: "add_timestampoutputs p (args @ dir_tokens @ log_tokens @ report_tokens @ output_tokens @ debug_tokens)
      = args @ dir_tokens @ log_tokens @ report_tokens @ output_tokens @ debug_tokens @ stamp_tokens"
    unfolding add_timestampoutputs_def using path by (auto simp: parts)
  have "fst (get_command_args env p) = Inr ((args @ dir_tokens @ log_tokens @ report_tokens @ output_tokens @ debug_tokens @ stamp_tokens) @ include_tokens @ exclude_tokens)"
    unfolding get_command_args_steps args_def [symmetric] named
    by (simp only: logs debug_step stamp_step and_then_def sum.case add_include_tags_plain
        add_exclude_tags_plain include_tokens_def exclude_tokens_def append_assoc)
  then have result: "fst (get_command_args env p) = Inr (args @ dir_tokens @ log_tokens @ report_tokens @ output_tokens @ debug_tokens @ stamp_tokens @ include_tokens @ exclude_tokens)"
    by simp
  have no_l: "''-l'' \<notin> set (dir_tokens @ report_tokens @ output_tokens @ debug_tokens @ stamp_tokens @ include_tokens @ exclude_tokens)"
    and no_r: "''-r'' \<notin> set (dir_tokens @ log_tokens @ output_tokens @ debug_tokens @ stamp_tokens @ include_tokens @ exclude_tokens)"
    and no_o: "''-o'' \<notin> set (dir_tokens @ log_tokens @ report_tokens @ debug_tokens @ stamp_tokens @ include_tokens @ exclude_tokens)"
    using path by (auto simp: parts include_tokens_def exclude_tokens_def)
  have "sublist (log_tokens @ report_tokens @ output_tokens) (dir_tokens @ (log_tokens @ report_tokens @ output_tokens) @ debug_tokens @ stamp_tokens @ include_tokens @ exclude_tokens)"
    by (rule sublist_appendI)
  then have together: "sublist (log_tokens @ report_tokens @ output_tokens) (dir_tokens @ log_tokens @ report_tokens @ output_tokens @ debug_tokens @ stamp_tokens @ include_tokens @ exclude_tokens)"
    by simp
  have "sublist log_tokens (dir_tokens @ log_tokens @ report_tokens @ output_tokens @ debug_tokens @ stamp_tokens @ include_tokens @ exclude_tokens)"
    by (rule sublist_appendI)
  moreover have "sublist report_tokens ((dir_tokens @ log_tokens) @ report_tokens @ output_tokens @ debug_tokens @ stamp_tokens @ include_tokens @ exclude_tokens)"
    by (rule sublist_appendI)
  moreover have "sublist output_tokens ((dir_tokens @ log_tokens @ report_tokens) @ output_tokens @ debug_tokens @ stamp_tokens @ include_tokens @ exclude_tokens)"
    by (rule sublist_appendI)
  ultimately have each: "sublist log_tokens (dir_tokens @ log_tokens @ report_tokens @ output_tokens @ debug_tokens @ stamp_tokens @ include_tokens @ exclude_tokens)"
    "sublist report_tokens (dir_tokens @ log_tokens @ report_tokens @ output_tokens @ debug_tokens @ stamp_tokens @ include_tokens @ exclude_tokens)"
    "sublist output_tokens (dir_tokens @ log_tokens @ report_tokens @ output_tokens @ debug_tokens @ stamp_tokens @ include_tokens @ exclude_tokens)"
    by simp_all
  let ?rest = "dir_tokens @ log_tokens @ report_tokens @ output_tokens @ debug_tokens @ stamp_tokens @ include_tokens @ exclude_tokens"
  have first: "if ''--log'' \<in> set args \<or> ''-l'' \<in> set args then ''-l'' \<notin> set ?rest
        else sublist [''-l'', ''Smoke-Log.html''] ?rest"
  proof (cases "''--log'' \<in> set args \<or> ''-l'' \<in> set args")
    case True
    then have "log_tokens = []"
      by (auto simp: log_tokens_def)
    with no_l have "''-l'' \<notin> set ?rest"
      by simp
    with True show ?thesis
      by simp
  next
    case False
    then have "log_tokens = [''-l'', ''Smoke-Log.html'']"
      by (auto simp: log_tokens_def)
    then have "sublist [''-l'', ''Smoke-Log.html''] ?rest"
      using each(1) by (simp only:)
    with False show ?thesis
      by simp
  qed
  have second: "if ''--report'' \<in> set args \<or> ''-r'' \<in> set args then ''-r'' \<notin> set ?rest
        else sublist [''-r'', ''Smoke-Report.html''] ?rest"
  proof (cases "''--report'' \<in> set args \<or> ''-r'' \<in> set args")
    case True
    then have "report_tokens = []"
      by (auto simp: report_tokens_def)
    with no_r have "''-r'' \<notin> set ?rest"
      by simp
    with True show ?thesis
      by simp
  next
    case False
    then have "report_tokens = [''-r'', ''Smoke-Report.html'']"
      by (auto simp: report_tokens_def)
    then have "sublist [''-r'', ''Smoke-Report.html''] ?rest"
      using each(2) by (simp only:)
    with False show ?thesis
      by simp
  qed
  have third: "if ''--output'' \<in> set args \<or> ''-o'' \<in> set args then ''-o'' \<notin> set ?rest
        else sublist [''-o'', ''Smoke-Output.xml''] ?rest"
  proof (cases "''--output'' \<in> set args \<or> ''-o'' \<in> set args")
    case True
    then have "output_tokens = []"
      by (auto simp: output_tokens_def)
    with no_o have "''-o'' \<notin> set ?rest"
      by simp
    with True show ?thesis
      by simp
  next
    case False
    then have "output_tokens = [''-o'', ''Smoke-Output.xml'']"
      by (auto simp: output_tokens_def)
    then have "sublist [''-o'', ''Smoke-Output.xml''] ?rest"
      using each(3) by (simp only:)
    with False show ?thesis
      by simp
  qed
  have fourth: "set args \<inter> {''--log'', ''-l'', ''--report'', ''-r'', ''--output'', ''-o''} = {}
      \<longrightarrow> sublist [''-l'', ''Smoke-Log.html'', ''-r'', ''Smoke-Report.html'',
                   ''-o'', ''Smoke-Output.xml''] ?rest"
  proof
    assume "set args \<inter> {''--log'', ''-l'', ''--report'', ''-r'', ''--output'', ''-o''} = {}"
    then have "log_tokens @ report_tokens @ output_tokens
        = [''-l'', ''Smoke-Log.html'', ''-r'', ''Smoke-Report.html'', ''-o'', ''Smoke-Output.xml'']"
      by (auto simp: log_tokens_def report_tokens_def output_tokens_def)
    then show "sublist [''-l'', ''Smoke-Log.html'', ''-r'', ''Smoke-Report.html'',
                   ''-o'', ''Smoke-Output.xml''] ?rest"
      using together by (simp only:)
  qed
  from result first second third fourth show ?thesis
    by blast
qed

theorem get_command_args_suite_name_logs_witness:
  "\<exists>rest. fst (get_command_args bare_posix
                 (smoke_profile\<lparr>are_log_names_with_suite_name := True\<rparr>)) = Inr rest
      \<and> sublist [''-l'', ''Smoke-Log.html'', ''-r'', ''Smoke-Report.html'',
                  ''-o'', ''Smoke-Output.xml''] rest"
proof -
  let ?p = "smoke_profile\<lparr>are_log_names_with_suite_name := True\<rparr>"
  have tokens: "fst (get_arguments bare_posix ?p) = []"
    by (simp add: get_arguments_def bare_posix_def environment_of_def smoke_profile_def
        split_def)
  have enabled: "are_log_names_with_suite_name ?p"
    and suite: "suite_name ?p = ''Smoke''"
    and absolute: "\<not> prefix ''-'' (abspath bare_posix (output_directory ?p))"
    by (simp_all add: smoke_profile_def bare_posix_def environment_of_def)
  from get_command_args_suite_name_logs [OF enabled suite absolute]
  obtain rest where
    result: "fst (get_command_args bare_posix ?p) = Inr (fst (get_arguments bare_posix ?p) @ rest)"
    and together:
      "set (fst (get_arguments bare_posix ?p))
         \<inter> {''--log'', ''-l'', ''--report'', ''-r'', ''--output'', ''-o''} = {}
       \<longrightarrow> sublist [''-l'', ''Smoke-Log.html'', ''-r'', ''Smoke-Report.html'',
                     ''-o'', ''Smoke-Output.xml''] rest"
    by blast
  from result have "fst (get_command_args bare_posix ?p) = Inr rest"
    by (simp only: tokens append_Nil)
  moreover from together have "sublist [''-l'', ''Smoke-Log.html'', ''-r'', ''Smoke-Report.html'',
                     ''-o'', ''Smoke-Output.xml''] rest"
    by (simp only: tokens list.set Int_empty_left simp_thms)
  ultimately show ?thesis
    by blast
qed

end
